theory Spec2Isabelle
  imports Complex_Main "HOL-Library.Log_Nat" "HOL-Library.State_Monad"
begin

section \<open>Coordinates\<close>

text \<open>
  The coordinates of the program are C++ doubles. The vector and ray functions below are
  written once, for any coordinate type with a sum, a difference, an absolute value and
  an order, and read at two types: \<open>real\<close>, the exact arithmetic of the geometry, and
  \<open>double\<close>, a model of the binary64 format in which the program computes.

  A double is a real number, an infinity or a not-a-number. Sums and differences of
  numbers are rounded to the nearest binary64 value, ties to the even significand, and
  overflow to an infinity; infinities and not-a-number follow the format's rules, and
  every comparison with a not-a-number is false. The two zeros of the format are one
  value here: they are equal under \<^verbatim>\<open>==\<close> and differ only in the sign of a zero result.
  Equality of the logic is identity of values, so a not-a-number equals itself here,
  which \<^verbatim>\<open>==\<close> denies.

  \<open>Num a\<close> is a value of the program when \<open>a\<close> is a number of the format
  (\<open>isDouble\<close> below); the inputs of the examples on doubles are shown to be such.
\<close>

datatype double = Num real | PosInf | NegInf | NaN

text \<open>
  The binade of a non-zero number: the \<open>e\<close> with \<open>2^e \<le> |a| < 2^(e+1)\<close>, from the
  bit length of the integer part, or of the reciprocal below 1. (At 0 it is 0, which
  is no overflow; rounding treats 0 apart.)
\<close>

definition binade :: "real \<Rightarrow> int" where
  "binade a =
     (if 1 \<le> \<bar>a\<bar> then bitlen \<lfloor>\<bar>a\<bar>\<rfloor> - 1 else - bitlen (\<lceil>1 / \<bar>a\<bar>\<rceil> - 1))"

definition roundEven :: "real \<Rightarrow> int" where
  "roundEven q =
     (let f = \<lfloor>q\<rfloor> in
      if q - of_int f < 1 / 2 then f
      else if 1 / 2 < q - of_int f then f + 1
      else if even f then f else f + 1)"

text \<open>
  Rounding to binary64: 53 significant bits, so the spacing of the values in the binade
  \<open>e\<close> is \<open>2^(e - 52)\<close>; below \<open>2^-1022\<close> the spacing stays \<open>2^-1074\<close> (subnormal
  numbers); a rounded result beyond the largest binade, 1023, is an infinity.
\<close>

definition round_double :: "real \<Rightarrow> double" where
  "round_double a =
     (if a = 0 then Num 0
      else let e = max (binade a) (- 1022);
               u = 2 powi (e - 52);
               w = of_int (roundEven (a / u)) * u
           in if 1023 < binade w then (if 0 < a then PosInf else NegInf) else Num w)"

text \<open>A value of the format: an infinity, a not-a-number, or a number that rounding keeps.\<close>

definition isDouble :: "double \<Rightarrow> bool" where
  "isDouble d = (case d of Num a \<Rightarrow> round_double a = Num a | _ \<Rightarrow> True)"

definition isFinite :: "double \<Rightarrow> bool" where
  "isFinite d = (case d of Num a \<Rightarrow> True | _ \<Rightarrow> False)"

instantiation double :: "{zero, plus, minus, abs, ord}"
begin

definition zero_double :: double where
  "zero_double = Num 0"

definition plus_double :: "double \<Rightarrow> double \<Rightarrow> double" where
  "plus_double a b =
     (case a of
        NaN \<Rightarrow> NaN
      | Num v \<Rightarrow> (case b of Num w \<Rightarrow> round_double (v + w) | _ \<Rightarrow> b)
      | PosInf \<Rightarrow> (case b of NaN \<Rightarrow> NaN | NegInf \<Rightarrow> NaN | _ \<Rightarrow> PosInf)
      | NegInf \<Rightarrow> (case b of NaN \<Rightarrow> NaN | PosInf \<Rightarrow> NaN | _ \<Rightarrow> NegInf))"

definition minus_double :: "double \<Rightarrow> double \<Rightarrow> double" where
  "minus_double a b =
     (case a of
        NaN \<Rightarrow> NaN
      | Num v \<Rightarrow> (case b of Num w \<Rightarrow> round_double (v - w) | PosInf \<Rightarrow> NegInf
                   | NegInf \<Rightarrow> PosInf | NaN \<Rightarrow> NaN)
      | PosInf \<Rightarrow> (case b of NaN \<Rightarrow> NaN | PosInf \<Rightarrow> NaN | _ \<Rightarrow> PosInf)
      | NegInf \<Rightarrow> (case b of NaN \<Rightarrow> NaN | NegInf \<Rightarrow> NaN | _ \<Rightarrow> NegInf))"

definition abs_double :: "double \<Rightarrow> double" where
  "abs_double a = (case a of Num v \<Rightarrow> Num \<bar>v\<bar> | PosInf \<Rightarrow> PosInf | NegInf \<Rightarrow> PosInf | NaN \<Rightarrow> NaN)"

definition less_double :: "double \<Rightarrow> double \<Rightarrow> bool" where
  "less_double a b =
     (case a of
        NaN \<Rightarrow> False
      | Num v \<Rightarrow> (case b of Num w \<Rightarrow> v < w | PosInf \<Rightarrow> True | _ \<Rightarrow> False)
      | PosInf \<Rightarrow> False
      | NegInf \<Rightarrow> (case b of Num w \<Rightarrow> True | PosInf \<Rightarrow> True | _ \<Rightarrow> False))"

definition less_eq_double :: "double \<Rightarrow> double \<Rightarrow> bool" where
  "less_eq_double a b =
     (case a of
        NaN \<Rightarrow> False
      | Num v \<Rightarrow> (case b of Num w \<Rightarrow> v \<le> w | PosInf \<Rightarrow> True | _ \<Rightarrow> False)
      | PosInf \<Rightarrow> (case b of PosInf \<Rightarrow> True | _ \<Rightarrow> False)
      | NegInf \<Rightarrow> (case b of NaN \<Rightarrow> False | _ \<Rightarrow> True))"

instance ..

end

text \<open>The double nearest to \<open>10^-9\<close>, the tolerance of the examples on doubles.\<close>

definition tol9 :: double where
  "tol9 = round_double (1 / 10 ^ 9)"

section \<open>Points and vectors\<close>

text \<open>
  Modelled from the spec: the class RVector, which \<^verbatim>\<open>RRayData.cpp\<close> uses for
  every point and direction and whose declaration is not part of the sources at hand.
  The spec describes it as a 2D/3D coordinate value with a fuzzy equality, its
  coordinates finite or a sentinel invalid value. The coordinate type is the parameter
  \<open>'a\<close>: \<open>double\<close> for the program, with not-a-number as the value that is not a
  coordinate, and \<open>real\<close> for exact geometry.
\<close>

record 'a RVector =
  x :: 'a
  y :: 'a
  z :: 'a

text \<open>The two-argument constructor \<^verbatim>\<open>RVector(x, y)\<close>: a point of the drawing plane.\<close>

definition RVector2 :: "'a::zero \<Rightarrow> 'a \<Rightarrow> 'a RVector" where
  "RVector2 vx vy = \<lparr>x = vx, y = vy, z = 0\<rparr>"

definition nullVector :: "'a::zero RVector" where
  "nullVector = \<lparr>x = 0, y = 0, z = 0\<rparr>"

text \<open>
  Modelled from the spec: \<^verbatim>\<open>RVector::operator+\<close> and \<^verbatim>\<open>RVector::operator-\<close>,
  the coordinate-wise sum and difference behind "basePoint + direction", in the
  arithmetic of the coordinate type: rounded on doubles, exact on reals.
\<close>

definition operator_plus :: "'a::plus RVector \<Rightarrow> 'a RVector \<Rightarrow> 'a RVector" where
  "operator_plus v w = \<lparr>x = x v + x w, y = y v + y w, z = z v + z w\<rparr>"

definition operator_minus :: "'a::minus RVector \<Rightarrow> 'a RVector \<Rightarrow> 'a RVector" where
  "operator_minus v w = \<lparr>x = x v - x w, y = y v - y w, z = z v - z w\<rparr>"

text \<open>
  Modelled from the spec: \<^verbatim>\<open>RVector::equalsFuzzy\<close>, "equality comparison within a
  numeric tolerance". The source calls it with one argument, so the tolerance is the
  default of the missing declaration; it is the parameter \<open>tol\<close> of the model. The
  receiver is the first vector, the argument the second.
\<close>

definition equalsFuzzy :: "'a::{minus,abs,ord} \<Rightarrow> 'a RVector \<Rightarrow> 'a RVector \<Rightarrow> bool" where
  "equalsFuzzy tol v w =
     (\<bar>x v - x w\<bar> < tol \<and> \<bar>y v - y w\<bar> < tol \<and> \<bar>z v - z w\<bar> < tol)"

text \<open>Vectors of doubles: all coordinates values of the format, all coordinates numbers.\<close>

definition isDoubleVector :: "double RVector \<Rightarrow> bool" where
  "isDoubleVector v = (isDouble (x v) \<and> isDouble (y v) \<and> isDouble (z v))"

definition isFiniteVector :: "double RVector \<Rightarrow> bool" where
  "isFiniteVector v = (isFinite (x v) \<and> isFinite (y v) \<and> isFinite (z v))"

section \<open>Documents and entity data\<close>

text \<open>
  Modelled from the spec: the class RDocument, of which the source uses one query,
  \<^verbatim>\<open>getLinetypeByLayerId()\<close>: the identifier the document resolves for the
  linetype of the layer default. It takes no argument, so it is a value of the document.
\<close>

record RDocument =
  linetypeByLayerId :: int

definition getLinetypeByLayerId :: "RDocument \<Rightarrow> int" where
  "getLinetypeByLayerId d = linetypeByLayerId d"

text \<open>
  Modelled from the spec: the variant default of an identifier field, the value that
  \<^verbatim>\<open>linetypeId\<close> holds in entity data that no document has resolved.
\<close>

definition INVALID_ID :: int where
  "INVALID_ID = - 1"

text \<open>
  The base class REntityData: the document pointer (\<open>None\<close> is \<^verbatim>\<open>NULL\<close>) and
  the derived property \<^verbatim>\<open>linetypeId\<close>. RRayData extends it with the fields of
  the ray shape. Every function below is defined on the record scheme, so the fields of
  REntityData that the source file never touches (the extension part of the record)
  are carried along, and a statement about the whole record speaks about them too.
\<close>

record REntityData =
  document :: "RDocument option"
  linetypeId :: int

record 'a RRayData = REntityData +
  basePoint :: "'a RVector"
  direction :: "'a RVector"

text \<open>
  Modelled from the spec: \<^verbatim>\<open>getSecondPoint\<close> and \<^verbatim>\<open>setSecondPoint\<close> of the
  ray shape: "secondPoint = basePoint + direction", and setting the second point
  makes the direction the difference of the new second point and the base point.
\<close>

definition getSecondPoint :: "('a::plus, 'b) RRayData_scheme \<Rightarrow> 'a RVector" where
  "getSecondPoint r = operator_plus (basePoint r) (direction r)"

definition setSecondPoint ::
    "'a::minus RVector \<Rightarrow> ('a, 'b) RRayData_scheme \<Rightarrow> ('a, 'b) RRayData_scheme" where
  "setSecondPoint v r = r\<lparr>direction := operator_minus v (basePoint r)\<rparr>"

section \<open>RRayData.cpp\<close>

text \<open>
  \<^verbatim>\<open>RRayData::RRayData(const RVector& basePoint, const RVector& dir)\<close>: the shape
  is built from its two parameters; the entity part is default-constructed, with no
  document and the default linetype.
\<close>

definition RRayData_of :: "'a RVector \<Rightarrow> 'a RVector \<Rightarrow> 'a RRayData" where
  "RRayData_of bp dir =
     \<lparr>document = None, linetypeId = INVALID_ID, basePoint = bp, direction = dir\<rparr>"

text \<open>
  \<^verbatim>\<open>RRayData::RRayData(RDocument* document, const RRayData& data)\<close>. The base
  initialiser \<^verbatim>\<open>REntityData(document)\<close> runs first; the member-wise assignment
  \<^verbatim>\<open>*this = data\<close> then overwrites every field, so the object after the assignment
  is the source. The document pointer is set next, and the linetype is resolved only
  under the guard \<^verbatim>\<open>document != NULL\<close>.
\<close>

definition RRayData_copy ::
    "RDocument option \<Rightarrow> ('a, 'b) RRayData_scheme \<Rightarrow> ('a, 'b) RRayData_scheme" where
  "RRayData_copy doc data =
     (let this = data;
          this = this\<lparr>document := doc\<rparr>
      in case doc of
           None \<Rightarrow> this
         | Some d \<Rightarrow> this\<lparr>linetypeId := getLinetypeByLayerId d\<rparr>)"

text \<open>
  \<^verbatim>\<open>RRayData::getReferencePoints\<close>, a const member function: the hint is unused
  (its enumeration is declared elsewhere, so its type is a parameter), the list is
  built by two appends.
\<close>

definition getReferencePoints ::
    "'h \<Rightarrow> ('a::plus, 'b) RRayData_scheme \<Rightarrow> 'a RVector list" where
  "getReferencePoints hint r =
     (let ret = [];
          ret = ret @ [basePoint r];
          ret = ret @ [getSecondPoint r]
      in ret)"

text \<open>
  \<^verbatim>\<open>RRayData::moveReferencePoint\<close>: two consecutive \<^verbatim>\<open>if\<close> statements on
  the object; the second one reads the object as the first one left it. The result is
  the returned flag and the object after the call. The two points are passed as values.
\<close>

definition moveReferencePoint ::
    "'a::{plus,minus,abs,ord} \<Rightarrow> 'a RVector \<Rightarrow> 'a RVector \<Rightarrow> ('a, 'b) RRayData_scheme
      \<Rightarrow> bool \<times> ('a, 'b) RRayData_scheme" where
  "moveReferencePoint tol referencePoint targetPoint r =
     (let ret = False;
          (r, ret) = (if equalsFuzzy tol referencePoint (basePoint r)
                      then (r\<lparr>basePoint := targetPoint\<rparr>, True) else (r, ret));
          (r, ret) = (if equalsFuzzy tol referencePoint (getSecondPoint r)
                      then (setSecondPoint targetPoint r, True) else (r, ret))
      in (ret, r))"

section \<open>Calls on an object\<close>

text \<open>
  A sequence of member-function calls on one ray is a computation in the state monad
  whose state is the object. A call of the const member function
  \<^verbatim>\<open>getReferencePoints\<close> reads the object and returns the list; it has no write. A
  call of \<^verbatim>\<open>moveReferencePoint\<close> returns the flag and leaves the moved object as
  the state.
\<close>

definition getReferencePoints_call ::
    "'h \<Rightarrow> (('a::plus, 'b) RRayData_scheme, 'a RVector list) state" where
  "getReferencePoints_call hint =
     do { this \<leftarrow> State_Monad.get;
          State_Monad.return (getReferencePoints hint this) }"

definition moveReferencePoint_call ::
    "'a::{plus,minus,abs,ord} \<Rightarrow> 'a RVector \<Rightarrow> 'a RVector
      \<Rightarrow> (('a, 'b) RRayData_scheme, bool) state" where
  "moveReferencePoint_call tol referencePoint targetPoint =
     State (moveReferencePoint tol referencePoint targetPoint)"

section \<open>Auxiliary facts\<close>

text \<open>
  Evaluated roundings, and the two laws of double arithmetic used below: adding zero
  keeps a value of the format, and a number minus itself is zero.
\<close>

lemma tol9_val: "tol9 = Num (4835703278458517 / 2 ^ 82)"
  unfolding tol9_def
  by code_simp

lemma round_double_0: "round_double 0 = Num 0"
  by (simp add: round_double_def)

lemma round_double_1: "round_double 1 = Num 1"
  by code_simp

lemma round_double_5: "round_double 5 = Num 5"
  by code_simp

lemma plus_zero_double: "isDouble a \<Longrightarrow> a + 0 = a"
  by (cases a) (simp_all add: isDouble_def plus_double_def zero_double_def)

lemma minus_self_double: "isFinite a \<Longrightarrow> a - a = 0"
  by (cases a) (simp_all add: isFinite_def minus_double_def zero_double_def round_double_0)

text \<open>
  Vector arithmetic over the reals is exact.
\<close>

lemma RVector_eq_iff: "(v = w) = (x v = x w \<and> y v = y w \<and> z v = z w)"
  for v w :: "'a RVector"
  by auto

lemma equalsFuzzy_refl: "0 < tol \<Longrightarrow> equalsFuzzy tol v v"
  for tol :: real
  by (simp add: equalsFuzzy_def)

lemma plus_minus_cancel: "operator_plus w (operator_minus v w) = v"
  for v w :: "real RVector"
  by (simp add: operator_plus_def operator_minus_def)

lemma minus_plus_cancel: "operator_plus (operator_minus v w) w = v"
  for v w :: "real RVector"
  by (simp add: operator_plus_def operator_minus_def)

lemma minus_self: "operator_minus v v = nullVector"
  for v :: "real RVector"
  by (simp add: operator_minus_def nullVector_def)

lemma plus_nullVector: "operator_plus v nullVector = v"
  for v :: "real RVector"
  by (simp add: operator_plus_def nullVector_def)

lemma plus_eq_self_iff: "(operator_plus v w = v) = (w = nullVector)"
  for v w :: "real RVector"
  by (auto simp add: operator_plus_def nullVector_def RVector_eq_iff)

text \<open>
  On doubles the null vector is neutral for vectors of the format, and a vector of
  numbers fuzzy-equals itself under a positive tolerance.
\<close>

lemma plus_nullVector_double: "isDoubleVector v \<Longrightarrow> operator_plus v nullVector = v"
  by (simp add: operator_plus_def nullVector_def isDoubleVector_def plus_zero_double)

lemma equalsFuzzy_refl_double: "0 < tol \<Longrightarrow> isFiniteVector v \<Longrightarrow> equalsFuzzy tol v v"
  for tol :: double
  by (cases tol)
    (simp_all add: equalsFuzzy_def isFiniteVector_def minus_self_double zero_double_def
      abs_double_def less_double_def)

text \<open>
  The two branches of \<^verbatim>\<open>moveReferencePoint\<close>, by the outcome of the first
  comparison. When it fails the object reaches the second comparison untouched; when it
  succeeds the second comparison is made against \<open>targetPoint + direction\<close>.
\<close>

lemma first_no_match:
  "\<not> equalsFuzzy tol p (basePoint r) \<Longrightarrow>
   moveReferencePoint tol p t r =
     (if equalsFuzzy tol p (getSecondPoint r)
      then (True, r\<lparr>direction := operator_minus t (basePoint r)\<rparr>) else (False, r))"
  by (simp add: moveReferencePoint_def setSecondPoint_def)

lemma first_match:
  "equalsFuzzy tol p (basePoint r) \<Longrightarrow>
   moveReferencePoint tol p t r =
     (if equalsFuzzy tol p (operator_plus t (direction r))
      then (True, r\<lparr>basePoint := t, direction := operator_minus t t\<rparr>)
      else (True, r\<lparr>basePoint := t\<rparr>))"
  by (simp add: moveReferencePoint_def setSecondPoint_def getSecondPoint_def)



lemma fuzzy_ray01:
  "0 < tol \<Longrightarrow> tol \<le> 1 \<Longrightarrow> \<not> equalsFuzzy tol (RVector2 1 0) (RVector2 0 0)"
  for tol :: real
  by (simp add: equalsFuzzy_def RVector2_def)

lemma fuzzy_ray01_double:
  "tol \<le> Num 1 \<Longrightarrow> \<not> equalsFuzzy tol (RVector2 (Num 1) 0) (RVector2 0 0)"
  by (cases tol)
    (simp_all add: equalsFuzzy_def RVector2_def zero_double_def minus_double_def
      round_double_1 abs_double_def less_double_def less_eq_double_def)

lemma pts_eq: "getReferencePoints hint r = [basePoint r, operator_plus (basePoint r) (direction r)]"
  by (simp add: getReferencePoints_def getSecondPoint_def)

lemma run_getReferencePoints_call:
  "run_state (getReferencePoints_call hint) r = (getReferencePoints hint r, r)"
  by (simp add: getReferencePoints_call_def)

section \<open>The document-attaching copy constructor\<close>

text \<open>
  C1. For every source and every non-null target document \<open>d\<close>, the copy made by
  \<^verbatim>\<open>RRayData(document, data)\<close> is the source with the document pointer set to
  \<open>d\<close> and \<^verbatim>\<open>linetypeId\<close> overwritten by \<open>d\<close>'s layer default: the geometric
  fields and every other property field are the source's, the linetype is the target
  document's whatever the source held. In particular, when the source's linetype differs
  from what the target resolves, the copy does not carry the source's value.
\<close>

theorem copy_resolves_linetype_from_target:
  "RRayData_copy (Some d) data =
     data\<lparr>document := Some d, linetypeId := getLinetypeByLayerId d\<rparr>
   \<and> linetypeId (RRayData_copy (Some d) data) = getLinetypeByLayerId d
   \<and> basePoint (RRayData_copy (Some d) data) = basePoint data
   \<and> direction (RRayData_copy (Some d) data) = direction data
   \<and> RRayData.more (RRayData_copy (Some d) data) = RRayData.more data
   \<and> (linetypeId data \<noteq> getLinetypeByLayerId d \<longrightarrow>
        linetypeId (RRayData_copy (Some d) data) \<noteq> linetypeId data)"
  by (simp add: RRayData_copy_def)

theorem copy_resolves_linetype_from_target_witness:
  "linetypeId (RRayData_copy (Some \<lparr>linetypeByLayerId = 8\<rparr>)
      \<lparr>document = Some \<lparr>linetypeByLayerId = 7\<rparr>, linetypeId = 7,
       basePoint = RVector2 0 0 :: real RVector, direction = RVector2 1 0\<rparr>) = 8
   \<and> (7::int) \<noteq> 8"
  using copy_resolves_linetype_from_target
    [of "\<lparr>linetypeByLayerId = 8\<rparr>"
        "\<lparr>document = Some \<lparr>linetypeByLayerId = 7\<rparr>, linetypeId = 7,
          basePoint = RVector2 0 0 :: real RVector, direction = RVector2 1 0\<rparr>"]
  by (simp add: getLinetypeByLayerId_def)

text \<open>
  C6, as stated, fails. With a null document the guard skips the resolution and nothing
  resets \<^verbatim>\<open>linetypeId\<close> after the assignment \<^verbatim>\<open>*this = data\<close>: a source
  holding linetype 7 gives a copy holding 7, which is not the default that a freshly
  constructed ray holds, and a source holding 8 gives a copy holding 8, so the value
  follows the source.
\<close>

theorem copy_null_document_default_counterexample:
  "linetypeId (RRayData_copy None
      \<lparr>document = Some \<lparr>linetypeByLayerId = 7\<rparr>, linetypeId = 7,
       basePoint = RVector2 0 0 :: real RVector, direction = RVector2 1 0\<rparr>) = 7
   \<and> linetypeId (RRayData_copy None
      \<lparr>document = Some \<lparr>linetypeByLayerId = 7\<rparr>, linetypeId = 7,
       basePoint = RVector2 0 0 :: real RVector, direction = RVector2 1 0\<rparr>) \<noteq> INVALID_ID
   \<and> linetypeId (RRayData_copy None
      \<lparr>document = Some \<lparr>linetypeByLayerId = 7\<rparr>, linetypeId = 7,
       basePoint = RVector2 0 0 :: real RVector, direction = RVector2 1 0\<rparr>)
      \<noteq> linetypeId (RRayData_of (RVector2 0 0 :: real RVector) (RVector2 1 0))
   \<and> linetypeId (RRayData_copy None
      \<lparr>document = Some \<lparr>linetypeByLayerId = 8\<rparr>, linetypeId = 8,
       basePoint = RVector2 0 0 :: real RVector, direction = RVector2 1 0\<rparr>) = 8"
  by (simp add: RRayData_copy_def INVALID_ID_def RRayData_of_def)

text \<open>
  C6, amended. When \<^verbatim>\<open>RRayData(document, data)\<close> is called with a null document,
  the copy is the source with its document pointer set to null: \<^verbatim>\<open>linetypeId\<close> is
  the source's value, copied by the assignment and not resolved again. The constructor
  has no failing path: the model is a total function with no error result.
\<close>

theorem copy_null_document_keeps_source_linetype:
  "RRayData_copy None data = data\<lparr>document := None\<rparr>
   \<and> document (RRayData_copy None data) = None
   \<and> linetypeId (RRayData_copy None data) = linetypeId data"
  by (simp add: RRayData_copy_def)

section \<open>Reference points\<close>

text \<open>
  C2, as stated, fails on doubles. The ray with base point \<open>(2^60, 0)\<close> and direction
  \<open>(1, 0)\<close> has a direction that is not the null vector, and all its coordinates are
  values of the format; the spacing of doubles near \<open>2^60\<close> is 256, so the sum
  \<open>2^60 + 1\<close> rounds back to \<open>2^60\<close> and \<^verbatim>\<open>getReferencePoints\<close> returns the
  base point twice.
\<close>

theorem nonzero_direction_absorbed_counterexample:
  "direction (RRayData_of (RVector2 (Num (2 ^ 60)) 0) (RVector2 (Num 1) 0)) \<noteq> nullVector
   \<and> isDoubleVector (RVector2 (Num (2 ^ 60)) 0)
   \<and> isDoubleVector (RVector2 (Num 1) 0)
   \<and> getReferencePoints True (RRayData_of (RVector2 (Num (2 ^ 60)) 0) (RVector2 (Num 1) 0))
       = [RVector2 (Num (2 ^ 60)) 0, RVector2 (Num (2 ^ 60)) 0]
   \<and> getReferencePoints True (RRayData_of (RVector2 (Num (2 ^ 60)) 0) (RVector2 (Num 1) 0)) ! 0
       = getReferencePoints True (RRayData_of (RVector2 (Num (2 ^ 60)) 0) (RVector2 (Num 1) 0)) ! 1"
proof -
  have z: "(0::double) + 0 = 0"
    by (simp add: plus_double_def zero_double_def round_double_0)
  have ne: "direction (RRayData_of (RVector2 (Num (2 ^ 60)) 0) (RVector2 (Num 1) 0))
      \<noteq> nullVector"
    by (simp add: RRayData_of_def RVector2_def nullVector_def zero_double_def)
  have d1: "isDoubleVector (RVector2 (Num (2 ^ 60)) 0)"
    by code_simp
  have d2: "isDoubleVector (RVector2 (Num 1) 0)"
    by code_simp
  have pts: "getReferencePoints True
        (RRayData_of (RVector2 (Num (2 ^ 60)) 0) (RVector2 (Num 1) 0))
      = [RVector2 (Num (2 ^ 60)) 0, RVector2 (Num (2 ^ 60)) 0]"
    by code_simp
  from ne d1 d2 pts show ?thesis by simp
qed

text \<open>
  C2, amended. For every ray, every coordinate arithmetic and every rendering hint,
  \<^verbatim>\<open>getReferencePoints\<close> returns exactly two points, in the order base point,
  base point plus direction as \<^verbatim>\<open>operator+\<close> computes it; two hints give the same
  list. The two points differ exactly when that sum differs from the base point: in
  exact arithmetic, for every direction that is not the null vector; on doubles a
  non-null direction can be absorbed by rounding. When the direction is the null vector
  the list still has two entries, both the base point (on doubles, for a base point whose
  coordinates are values of the format).
\<close>

theorem getReferencePoints_two_points:
  fixes hint hint' :: 'h
    and r :: "('a::plus, 'b) RRayData_scheme"
    and rr :: "(real, 'c) RRayData_scheme"
    and rd :: "(double, 'd) RRayData_scheme"
  shows "getReferencePoints hint r = [basePoint r, operator_plus (basePoint r) (direction r)]
   \<and> length (getReferencePoints hint r) = 2
   \<and> getReferencePoints hint r = getReferencePoints hint' r
   \<and> (getReferencePoints hint r ! 0 \<noteq> getReferencePoints hint r ! 1)
       = (operator_plus (basePoint r) (direction r) \<noteq> basePoint r)
   \<and> (direction rr \<noteq> nullVector \<longrightarrow>
        getReferencePoints hint rr ! 0 \<noteq> getReferencePoints hint rr ! 1)
   \<and> (direction rr = nullVector \<longrightarrow>
        getReferencePoints hint rr = [basePoint rr, basePoint rr])
   \<and> (direction rd = nullVector \<and> isDoubleVector (basePoint rd) \<longrightarrow>
        getReferencePoints hint rd = [basePoint rd, basePoint rd])"
proof -
  have apart: "basePoint rr \<noteq> operator_plus (basePoint rr) (direction rr)"
    if "direction rr \<noteq> nullVector"
    using that plus_eq_self_iff [of "basePoint rr" "direction rr"] by auto
  have g: "(getReferencePoints hint r ! 0 \<noteq> getReferencePoints hint r ! 1)
       = (operator_plus (basePoint r) (direction r) \<noteq> basePoint r)"
    by (auto simp add: pts_eq)
  show ?thesis
    using apart g by (simp add: pts_eq plus_nullVector plus_nullVector_double)
qed

theorem getReferencePoints_two_points_witness:
  "getReferencePoints True (RRayData_of (RVector2 0 0 :: real RVector) (RVector2 1 0))
     = [RVector2 0 0, RVector2 1 0]
   \<and> (RVector2 0 0 :: real RVector) \<noteq> RVector2 1 0
   \<and> getReferencePoints True (RRayData_of (RVector2 2 3 :: real RVector) nullVector)
     = [RVector2 2 3, RVector2 2 3]
   \<and> isDoubleVector (RVector2 (Num (2 ^ 60)) 0)
   \<and> getReferencePoints True (RRayData_of (RVector2 (Num (2 ^ 60)) 0) nullVector)
     = [RVector2 (Num (2 ^ 60)) 0, RVector2 (Num (2 ^ 60)) 0]"
proof -
  let ?r1 = "RRayData_of (RVector2 0 0 :: real RVector) (RVector2 1 0)"
  let ?r2 = "RRayData_of (RVector2 2 3 :: real RVector) nullVector"
  let ?r3 = "RRayData_of (RVector2 (Num (2 ^ 60)) 0) nullVector"
  note inst = getReferencePoints_two_points [where hint = True and hint' = False]
  have ne: "direction ?r1 \<noteq> nullVector"
    by (simp add: RRayData_of_def RVector2_def nullVector_def)
  have nu: "direction ?r2 = nullVector"
    by (simp add: RRayData_of_def)
  have d1: "isDoubleVector (RVector2 (Num (2 ^ 60)) 0)"
    by code_simp
  have nd: "direction ?r3 = nullVector \<and> isDoubleVector (basePoint ?r3)"
    using d1 by (simp add: RRayData_of_def)
  from ne inst [where r = ?r1 and rr = ?r1 and rd = ?r3]
  have a: "getReferencePoints True ?r1 = [RVector2 0 0, RVector2 1 0]
      \<and> (RVector2 0 0 :: real RVector) \<noteq> RVector2 1 0"
    by (simp add: RRayData_of_def RVector2_def operator_plus_def)
  from nu inst [where r = ?r2 and rr = ?r2 and rd = ?r3]
  have b: "getReferencePoints True ?r2 = [RVector2 2 3, RVector2 2 3]"
    by (simp add: RRayData_of_def plus_nullVector)
  have bp3: "basePoint ?r3 = RVector2 (Num (2 ^ 60)) 0"
    unfolding RRayData_of_def by simp
  from nd inst [where r = ?r3 and rr = ?r2 and rd = ?r3]
  have "getReferencePoints True ?r3 = [basePoint ?r3, basePoint ?r3]"
    by blast
  then have c: "getReferencePoints True ?r3
      = [RVector2 (Num (2 ^ 60)) 0, RVector2 (Num (2 ^ 60)) 0]"
    unfolding bp3 .
  from a b c d1 show ?thesis by simp
qed

text \<open>
  C8. A call of \<^verbatim>\<open>getReferencePoints\<close> on an object returns the list and leaves
  the object as it was: base point, direction and every other field. Two calls in
  sequence, with any hints and nothing in between, return the same list and leave the
  object unchanged. That the absence of a mutation matters shows in the last part: with
  a call of \<^verbatim>\<open>moveReferencePoint\<close> between the two, on the ray from (0,0) with
  direction (1,0), the two lists differ.
\<close>

theorem getReferencePoints_pure:
  fixes r :: "('a::plus, 'b) RRayData_scheme"
  shows
  "run_state (getReferencePoints_call hint) r = (getReferencePoints hint r, r)
   \<and> basePoint (snd (run_state (getReferencePoints_call hint) r)) = basePoint r
   \<and> direction (snd (run_state (getReferencePoints_call hint) r)) = direction r
   \<and> run_state
        (do { a \<leftarrow> getReferencePoints_call hint;
              b \<leftarrow> getReferencePoints_call hint';
              State_Monad.return (a, b) }) r
      = ((getReferencePoints hint r, getReferencePoints hint r), r)
   \<and> run_state
        (do { a \<leftarrow> getReferencePoints_call True;
              m \<leftarrow> moveReferencePoint_call (1 / 10 ^ 9 :: real) (RVector2 0 0) (RVector2 4 2);
              b \<leftarrow> getReferencePoints_call True;
              State_Monad.return (a, m, b) })
        (RRayData_of (RVector2 0 0) (RVector2 1 0))
      = (([RVector2 0 0, RVector2 1 0], True, [RVector2 4 2, RVector2 5 2]),
         RRayData_of (RVector2 4 2) (RVector2 1 0))"
proof -
  have one: "run_state (getReferencePoints_call h) q = (getReferencePoints h q, q)"
    for h :: 'h and q :: "('e::plus, 'f) RRayData_scheme"
    by (rule run_getReferencePoints_call)
  have two: "run_state
        (do { a \<leftarrow> getReferencePoints_call hint;
              b \<leftarrow> getReferencePoints_call hint';
              State_Monad.return (a, b) }) r
      = ((getReferencePoints hint r, getReferencePoints hint r), r)"
    by (simp add: one pts_eq)
  have seq: "run_state
        (do { a \<leftarrow> getReferencePoints_call h;
              m \<leftarrow> moveReferencePoint_call tl pp tt;
              b \<leftarrow> getReferencePoints_call h';
              State_Monad.return (a, m, b) }) q
      = ((getReferencePoints h q, fst (moveReferencePoint tl pp tt q),
          getReferencePoints h' (snd (moveReferencePoint tl pp tt q))),
         snd (moveReferencePoint tl pp tt q))"
    for h h' :: bool and tl :: real and pp tt and q :: "real RRayData"
    by (simp add: one moveReferencePoint_call_def split: prod.split)
  have hit: "equalsFuzzy (1 / 10 ^ 9 :: real) (RVector2 0 0)
      (basePoint (RRayData_of (RVector2 0 0) (RVector2 1 0)))"
    by (simp add: equalsFuzzy_def RRayData_of_def RVector2_def)
  have mv: "moveReferencePoint (1 / 10 ^ 9 :: real) (RVector2 0 0) (RVector2 4 2)
        (RRayData_of (RVector2 0 0) (RVector2 1 0))
      = (True, RRayData_of (RVector2 4 2) (RVector2 1 0))"
    unfolding first_match [OF hit]
    by (simp add: equalsFuzzy_def RRayData_of_def RVector2_def operator_plus_def)
  have three: "run_state
        (do { a \<leftarrow> getReferencePoints_call True;
              m \<leftarrow> moveReferencePoint_call (1 / 10 ^ 9 :: real) (RVector2 0 0) (RVector2 4 2);
              b \<leftarrow> getReferencePoints_call True;
              State_Monad.return (a, m, b) })
        (RRayData_of (RVector2 0 0) (RVector2 1 0))
      = (([RVector2 0 0, RVector2 1 0], True, [RVector2 4 2, RVector2 5 2]),
         RRayData_of (RVector2 4 2) (RVector2 1 0))"
    unfolding seq mv
    by (simp add: pts_eq RRayData_of_def RVector2_def operator_plus_def)
  from one [of hint r] two three show ?thesis by simp
qed

section \<open>Moving a reference point\<close>



text \<open>
  C4, as stated, fails on doubles in one part: the direction written by the second
  branch need not reproduce the target. The ray has base point \<open>(2^60, 0)\<close> and
  direction \<open>(0, 1)\<close>; the reference point is its second point \<open>(2^60, 1)\<close>, the
  target is \<open>(1, 1)\<close>, all of them vectors of the format. Only the second comparison
  succeeds, the call returns true and the direction becomes the rounded difference
  \<open>(-2^60, 1)\<close>; base point plus direction is then \<open>(0, 1)\<close>, which is not the
  target and not within the tolerance of it.
\<close>

theorem second_point_not_reproduced_counterexample:
  "isDoubleVector (RVector2 (Num (2 ^ 60)) 0)
   \<and> isDoubleVector (RVector2 0 (Num 1))
   \<and> isDoubleVector (RVector2 (Num (2 ^ 60)) (Num 1))
   \<and> isDoubleVector (RVector2 (Num 1) (Num 1))
   \<and> equalsFuzzy tol9 (RVector2 (Num (2 ^ 60)) (Num 1))
       (getSecondPoint (RRayData_of (RVector2 (Num (2 ^ 60)) 0) (RVector2 0 (Num 1))))
   \<and> moveReferencePoint tol9 (RVector2 (Num (2 ^ 60)) (Num 1)) (RVector2 (Num 1) (Num 1))
        (RRayData_of (RVector2 (Num (2 ^ 60)) 0) (RVector2 0 (Num 1)))
      = (True, RRayData_of (RVector2 (Num (2 ^ 60)) 0) (RVector2 (Num (- (2 ^ 60))) (Num 1)))
   \<and> operator_plus (RVector2 (Num (2 ^ 60)) 0) (RVector2 (Num (- (2 ^ 60))) (Num 1))
      = RVector2 0 (Num 1)
   \<and> RVector2 0 (Num 1) \<noteq> RVector2 (Num 1) (Num 1)
   \<and> \<not> equalsFuzzy tol9 (RVector2 0 (Num 1)) (RVector2 (Num 1) (Num 1))"
  by code_simp

text \<open>
  C4, amended. In every coordinate arithmetic the second comparison is made on the
  object \<open>r1\<close> that the first \<^verbatim>\<open>if\<close> statement leaves (the base point already
  replaced when the first comparison succeeded), not on the original one, and it is made
  in both cases. When it succeeds the call returns true and the direction becomes
  \<open>targetPoint\<close> minus the base point of \<open>r1\<close>, as \<^verbatim>\<open>operator-\<close> computes it.
  In exact arithmetic base point plus direction of the result is then \<open>targetPoint\<close>;
  on doubles it is so only up to the rounding of the difference and of the sum.
  The scenario of the spec holds in exact arithmetic and on doubles: on a ray with base
  point (0,0) and direction (1,0), for a tolerance in (0, 1], moving (1,0) to (5,5)
  returns true, keeps the base point and sets the direction to (5,5) - (0,0) = (5,5).
\<close>

theorem second_branch_after_first:
  fixes tol :: "'a::{plus,minus,abs,ord}" and r :: "('a, 'b) RRayData_scheme"
    and tolr :: real and rr r0 :: "(real, 'c) RRayData_scheme"
    and told :: double and rd0 :: "(double, 'd) RRayData_scheme"
  shows
  "(let r1 = (if equalsFuzzy tol p (basePoint r) then r\<lparr>basePoint := t\<rparr> else r) in
      equalsFuzzy tol p (getSecondPoint r1) \<longrightarrow>
        moveReferencePoint tol p t r
          = (True, r1\<lparr>direction := operator_minus t (basePoint r1)\<rparr>))
   \<and> (let r1 = (if equalsFuzzy tolr pr (basePoint rr) then rr\<lparr>basePoint := tr\<rparr> else rr) in
      equalsFuzzy tolr pr (getSecondPoint r1) \<longrightarrow>
        operator_plus (basePoint (snd (moveReferencePoint tolr pr tr rr)))
            (direction (snd (moveReferencePoint tolr pr tr rr))) = tr)
   \<and> (0 < tolr \<and> tolr \<le> 1 \<and> basePoint r0 = RVector2 0 0 \<and> direction r0 = RVector2 1 0 \<longrightarrow>
        moveReferencePoint tolr (RVector2 1 0) (RVector2 5 5) r0
          = (True, r0\<lparr>direction := operator_minus (RVector2 5 5) (RVector2 0 0)\<rparr>)
        \<and> operator_minus (RVector2 5 5) (RVector2 0 0) = (RVector2 5 5 :: real RVector))
   \<and> (0 < told \<and> told \<le> Num 1 \<and> basePoint rd0 = RVector2 0 0
        \<and> direction rd0 = RVector2 (Num 1) 0 \<longrightarrow>
        moveReferencePoint told (RVector2 (Num 1) 0) (RVector2 (Num 5) (Num 5)) rd0
          = (True, rd0\<lparr>direction := RVector2 (Num 5) (Num 5)\<rparr>))"
proof -
  have general: "moveReferencePoint tol p t r
          = (True, r1\<lparr>direction := operator_minus t (basePoint r1)\<rparr>)"
    if r1: "r1 = (if equalsFuzzy tol p (basePoint r) then r\<lparr>basePoint := t\<rparr> else r)"
      and hit: "equalsFuzzy tol p (getSecondPoint r1)"
    for tol :: "'e::{plus,minus,abs,ord}" and p t and r r1 :: "('e, 'f) RRayData_scheme"
  proof (cases "equalsFuzzy tol p (basePoint r)")
    case True
    with r1 hit show ?thesis
      by (simp add: first_match getSecondPoint_def)
  next
    case False
    with r1 hit show ?thesis
      by (simp add: first_no_match)
  qed
  have exact: "operator_plus (basePoint (snd (moveReferencePoint tolr pr tr rr)))
            (direction (snd (moveReferencePoint tolr pr tr rr))) = tr"
    if r1: "r1 = (if equalsFuzzy tolr pr (basePoint rr) then rr\<lparr>basePoint := tr\<rparr> else rr)"
      and hit: "equalsFuzzy tolr pr (getSecondPoint r1)" for r1
    using general [OF r1 hit] r1 by (simp add: plus_minus_cancel)
  have scenario: "moveReferencePoint tolr (RVector2 1 0) (RVector2 5 5) r0
          = (True, r0\<lparr>direction := operator_minus (RVector2 5 5) (RVector2 0 0)\<rparr>)"
    if "0 < tolr" "tolr \<le> 1" "basePoint r0 = RVector2 0 0" "direction r0 = RVector2 1 0"
  proof -
    from that have miss: "\<not> equalsFuzzy tolr (RVector2 1 0) (basePoint r0)"
      by (simp add: fuzzy_ray01)
    have "getSecondPoint r0 = RVector2 1 0"
      using that by (simp add: getSecondPoint_def operator_plus_def RVector2_def)
    then show ?thesis
      using that by (simp add: first_no_match [OF miss] equalsFuzzy_refl)
  qed
  have diff: "operator_minus (RVector2 5 5) (RVector2 0 0) = (RVector2 5 5 :: real RVector)"
    by (simp add: operator_minus_def RVector2_def)
  have scenario_double:
    "moveReferencePoint told (RVector2 (Num 1) 0) (RVector2 (Num 5) (Num 5)) rd0
          = (True, rd0\<lparr>direction := RVector2 (Num 5) (Num 5)\<rparr>)"
    if "0 < told" "told \<le> Num 1" "basePoint rd0 = RVector2 0 0"
      "direction rd0 = RVector2 (Num 1) 0"
  proof -
    from that have miss: "\<not> equalsFuzzy told (RVector2 (Num 1) 0) (basePoint rd0)"
      by (simp add: fuzzy_ray01_double)
    have second: "getSecondPoint rd0 = RVector2 (Num 1) 0"
      using that
      by (simp add: getSecondPoint_def operator_plus_def RVector2_def zero_double_def
          plus_double_def round_double_0 round_double_1)
    have fin: "isFiniteVector (RVector2 (Num 1) 0)"
      by (simp add: isFiniteVector_def RVector2_def isFinite_def zero_double_def)
    have dir: "operator_minus (RVector2 (Num 5) (Num 5)) (basePoint rd0)
        = RVector2 (Num 5) (Num 5)"
      using that
      by (simp add: operator_minus_def RVector2_def zero_double_def minus_double_def
          round_double_0 round_double_5)
    show ?thesis
      using equalsFuzzy_refl_double [OF that(1) fin]
      by (simp add: first_no_match [OF miss] second dir)
  qed
  from general [OF refl] exact [OF refl] scenario diff scenario_double show ?thesis
    unfolding Let_def by blast
qed

theorem second_branch_after_first_witness:
  "equalsFuzzy (1 / 10 ^ 9 :: real) (RVector2 1 0)
     (getSecondPoint (RRayData_of (RVector2 0 0) (RVector2 1 0)))
   \<and> moveReferencePoint (1 / 10 ^ 9 :: real) (RVector2 1 0) (RVector2 5 5)
        (RRayData_of (RVector2 0 0) (RVector2 1 0))
      = (True, RRayData_of (RVector2 0 0) (RVector2 5 5))
   \<and> equalsFuzzy (1 / 10 ^ 9 :: real) (RVector2 0 0)
        (getSecondPoint ((RRayData_of (RVector2 0 0) (RVector2 1 0))
           \<lparr>basePoint := RVector2 (- 1) 0\<rparr>))
   \<and> moveReferencePoint (1 / 10 ^ 9 :: real) (RVector2 0 0) (RVector2 (- 1) 0)
        (RRayData_of (RVector2 0 0) (RVector2 1 0))
      = (True, RRayData_of (RVector2 (- 1) 0) (RVector2 0 0))
   \<and> 0 < tol9 \<and> tol9 \<le> Num 1
   \<and> moveReferencePoint tol9 (RVector2 (Num 1) 0) (RVector2 (Num 5) (Num 5))
        (RRayData_of (RVector2 0 0) (RVector2 (Num 1) 0))
      = (True, RRayData_of (RVector2 0 0) (RVector2 (Num 5) (Num 5)))"
proof -
  let ?tol = "1 / 10 ^ 9 :: real"
  let ?r = "RRayData_of (RVector2 0 0 :: real RVector) (RVector2 1 0)"
  let ?rd = "RRayData_of (RVector2 0 0) (RVector2 (Num 1) 0)"
  have miss: "\<not> equalsFuzzy ?tol (RVector2 1 0) (basePoint ?r)"
    by (simp add: equalsFuzzy_def RRayData_of_def RVector2_def)
  have hit: "equalsFuzzy ?tol (RVector2 1 0) (getSecondPoint ?r)"
    by (simp add: equalsFuzzy_def getSecondPoint_def operator_plus_def RRayData_of_def
        RVector2_def)
  from miss hit
    second_branch_after_first
      [where tol = ?tol and p = "RVector2 1 0" and r = ?r and t = "RVector2 5 5"
         and tolr = ?tol and rr = ?r and ?r0.0 = ?r and told = tol9 and ?rd0.0 = ?rd,
        THEN conjunct1]
  have "moveReferencePoint ?tol (RVector2 1 0) (RVector2 5 5) ?r
      = (True, ?r\<lparr>direction := operator_minus (RVector2 5 5) (basePoint ?r)\<rparr>)"
    by (simp add: Let_def)
  then have a: "moveReferencePoint ?tol (RVector2 1 0) (RVector2 5 5) ?r
      = (True, RRayData_of (RVector2 0 0) (RVector2 5 5))"
    by (simp add: RRayData_of_def operator_minus_def RVector2_def)
  have first: "equalsFuzzy ?tol (RVector2 0 0) (basePoint ?r)"
    by (simp add: equalsFuzzy_def RRayData_of_def RVector2_def)
  have both: "equalsFuzzy ?tol (RVector2 0 0)
      (getSecondPoint (?r\<lparr>basePoint := RVector2 (- 1) 0\<rparr>))"
    by (simp add: equalsFuzzy_def getSecondPoint_def operator_plus_def RRayData_of_def
        RVector2_def)
  from first both
    second_branch_after_first
      [where tol = ?tol and p = "RVector2 0 0" and r = ?r and t = "RVector2 (- 1) 0"
         and tolr = ?tol and rr = ?r and ?r0.0 = ?r and told = tol9 and ?rd0.0 = ?rd,
        THEN conjunct1]
  have "moveReferencePoint ?tol (RVector2 0 0) (RVector2 (- 1) 0) ?r
      = (True, ?r\<lparr>basePoint := RVector2 (- 1) 0,
           direction := operator_minus (RVector2 (- 1) 0) (RVector2 (- 1) 0)\<rparr>)"
    by (simp add: Let_def)
  then have b: "moveReferencePoint ?tol (RVector2 0 0) (RVector2 (- 1) 0) ?r
      = (True, RRayData_of (RVector2 (- 1) 0) (RVector2 0 0))"
    by (simp add: RRayData_of_def operator_minus_def RVector2_def)
  have pos: "0 < tol9"
    by (simp add: tol9_val zero_double_def less_double_def)
  have le: "tol9 \<le> Num 1"
    by (simp add: tol9_val less_eq_double_def)
  have hyp: "0 < tol9 \<and> tol9 \<le> Num 1 \<and> basePoint ?rd = RVector2 0 0
      \<and> direction ?rd = RVector2 (Num 1) 0"
    using pos le by (simp add: RRayData_of_def)
  have upd: "?rd\<lparr>direction := RVector2 (Num 5) (Num 5)\<rparr>
      = RRayData_of (RVector2 0 0) (RVector2 (Num 5) (Num 5))"
    by (simp add: RRayData_of_def)
  from second_branch_after_first
    [where tolr = ?tol and rr = ?r and ?r0.0 = ?r and told = tol9 and ?rd0.0 = ?rd
       and tol = ?tol and r = ?r,
      THEN conjunct2, THEN conjunct2, THEN conjunct2, THEN mp, OF hyp]
  have c: "moveReferencePoint tol9 (RVector2 (Num 1) 0) (RVector2 (Num 5) (Num 5)) ?rd
      = (True, RRayData_of (RVector2 0 0) (RVector2 (Num 5) (Num 5)))"
    unfolding upd .
  from hit a both b pos le c show ?thesis
    by (intro conjI)
qed

text \<open>
  C5. When \<open>referencePoint\<close> fuzzy-matches neither the base point nor the second
  point, the call returns false and the object after the call is the object before it,
  all fields included. The returned flag is true exactly when one of the two
  comparisons of the function body succeeded. This holds in every coordinate arithmetic.
\<close>

theorem moveReferencePoint_no_match:
  "(\<not> equalsFuzzy tol p (basePoint r) \<and> \<not> equalsFuzzy tol p (getSecondPoint r) \<longrightarrow>
      moveReferencePoint tol p t r = (False, r))
   \<and> fst (moveReferencePoint tol p t r)
       = (equalsFuzzy tol p (basePoint r)
          \<or> equalsFuzzy tol p
              (getSecondPoint
                (if equalsFuzzy tol p (basePoint r) then r\<lparr>basePoint := t\<rparr> else r)))"
proof (cases "equalsFuzzy tol p (basePoint r)")
  case True
  then show ?thesis by (simp add: first_match)
next
  case False
  then show ?thesis by (simp add: first_no_match)
qed

theorem moveReferencePoint_no_match_witness:
  "\<not> equalsFuzzy (1 / 10 ^ 9 :: real) (RVector2 3 3)
       (basePoint (RRayData_of (RVector2 0 0) (RVector2 1 0)))
   \<and> \<not> equalsFuzzy (1 / 10 ^ 9 :: real) (RVector2 3 3)
       (getSecondPoint (RRayData_of (RVector2 0 0) (RVector2 1 0)))
   \<and> moveReferencePoint (1 / 10 ^ 9 :: real) (RVector2 3 3) (RVector2 5 5)
        (RRayData_of (RVector2 0 0) (RVector2 1 0))
      = (False, RRayData_of (RVector2 0 0) (RVector2 1 0))"
proof -
  let ?tol = "1 / 10 ^ 9 :: real"
  let ?r = "RRayData_of (RVector2 0 0 :: real RVector) (RVector2 1 0)"
  have m1: "\<not> equalsFuzzy ?tol (RVector2 3 3) (basePoint ?r)"
    by (simp add: equalsFuzzy_def RRayData_of_def RVector2_def)
  have m2: "\<not> equalsFuzzy ?tol (RVector2 3 3) (getSecondPoint ?r)"
    by (simp add: equalsFuzzy_def getSecondPoint_def operator_plus_def RRayData_of_def
        RVector2_def)
  from m1 m2 moveReferencePoint_no_match [of ?tol "RVector2 3 3" ?r "RVector2 5 5"]
  have "moveReferencePoint ?tol (RVector2 3 3) (RVector2 5 5) ?r = (False, ?r)"
    by blast
  with m1 m2 show ?thesis by blast
qed

text \<open>
  C10. When \<open>referencePoint\<close> fuzzy-matches the second point and not the base
  point, only the second branch runs: the call returns true, the direction becomes
  \<open>targetPoint\<close> minus the base point, and the base point, the document pointer, the
  linetype and every other field are unchanged. This holds in every coordinate
  arithmetic.
\<close>

theorem second_point_move_frame:
  assumes "equalsFuzzy tol p (getSecondPoint r)"
    and "\<not> equalsFuzzy tol p (basePoint r)"
  shows "moveReferencePoint tol p t r
      = (True, r\<lparr>direction := operator_minus t (basePoint r)\<rparr>)
    \<and> basePoint (snd (moveReferencePoint tol p t r)) = basePoint r
    \<and> document (snd (moveReferencePoint tol p t r)) = document r
    \<and> linetypeId (snd (moveReferencePoint tol p t r)) = linetypeId r
    \<and> RRayData.more (snd (moveReferencePoint tol p t r)) = RRayData.more r"
  using assms by (simp add: first_no_match)

theorem second_point_move_frame_witness:
  "equalsFuzzy (1 / 10 ^ 9 :: real) (RVector2 1 0)
     (getSecondPoint (RRayData_of (RVector2 0 0) (RVector2 1 0)))
   \<and> \<not> equalsFuzzy (1 / 10 ^ 9 :: real) (RVector2 1 0)
     (basePoint (RRayData_of (RVector2 0 0) (RVector2 1 0)))
   \<and> basePoint (snd (moveReferencePoint (1 / 10 ^ 9 :: real) (RVector2 1 0) (RVector2 5 5)
        (RRayData_of (RVector2 0 0) (RVector2 1 0)))) = RVector2 0 0
   \<and> direction (snd (moveReferencePoint (1 / 10 ^ 9 :: real) (RVector2 1 0) (RVector2 5 5)
        (RRayData_of (RVector2 0 0) (RVector2 1 0)))) = RVector2 5 5"
proof -
  let ?tol = "1 / 10 ^ 9 :: real"
  let ?r = "RRayData_of (RVector2 0 0 :: real RVector) (RVector2 1 0)"
  have miss: "\<not> equalsFuzzy ?tol (RVector2 1 0) (basePoint ?r)"
    by (simp add: equalsFuzzy_def RRayData_of_def RVector2_def)
  have hit: "equalsFuzzy ?tol (RVector2 1 0) (getSecondPoint ?r)"
    by (simp add: equalsFuzzy_def getSecondPoint_def operator_plus_def RRayData_of_def
        RVector2_def)
  from second_point_move_frame [OF hit miss, of "RVector2 5 5"]
  have res: "moveReferencePoint ?tol (RVector2 1 0) (RVector2 5 5) ?r
      = (True, ?r\<lparr>direction := operator_minus (RVector2 5 5) (basePoint ?r)\<rparr>)"
    by blast
  have "basePoint (snd (moveReferencePoint ?tol (RVector2 1 0) (RVector2 5 5) ?r))
        = RVector2 0 0
      \<and> direction (snd (moveReferencePoint ?tol (RVector2 1 0) (RVector2 5 5) ?r))
        = RVector2 5 5"
    unfolding res by (simp add: RRayData_of_def operator_minus_def RVector2_def)
  with hit miss show ?thesis by blast
qed

section \<open>Degenerate rays\<close>




text \<open>
  C9. One call aimed at the base point can also rewrite the direction. For a positive
  tolerance, moving the base point \<open>B\<close> of a ray with direction \<open>D\<close> to
  \<open>T = B - D\<close> first sets the base point to \<open>T\<close>; the second point read by the
  second comparison is then \<open>T + D = B\<close>, the reference point itself, so the second
  branch runs too and sets the direction to \<open>T - T\<close>, the null vector. There are
  rays with a non-null direction on which this happens: the ray from (0,0) with
  direction (1,0) is one, in exact arithmetic and on doubles.
\<close>

theorem base_move_collapses_direction:
  fixes tol :: real
  shows "(0 < tol \<longrightarrow>
      moveReferencePoint tol (basePoint r) (operator_minus (basePoint r) (direction r)) r
        = (True, r\<lparr>basePoint := operator_minus (basePoint r) (direction r),
                   direction := nullVector\<rparr>))
   \<and> (0 < tol \<longrightarrow>
        (\<exists>q :: real RRayData. direction q \<noteq> nullVector
           \<and> direction (snd (moveReferencePoint tol (basePoint q)
                 (operator_minus (basePoint q) (direction q)) q)) = nullVector))"
proof -
  have general: "moveReferencePoint tol (basePoint q)
        (operator_minus (basePoint q) (direction q)) q
      = (True, q\<lparr>basePoint := operator_minus (basePoint q) (direction q),
                 direction := nullVector\<rparr>)"
    if pos: "0 < tol" for q :: "(real, 'c) RRayData_scheme"
    by (simp add: first_match [OF equalsFuzzy_refl [OF pos]] minus_plus_cancel
        equalsFuzzy_refl [OF pos] minus_self)
  have "direction (RRayData_of (RVector2 0 0 :: real RVector) (RVector2 1 0)) \<noteq> nullVector"
    by (simp add: RRayData_of_def RVector2_def nullVector_def)
  moreover have "direction (snd (moveReferencePoint tol
        (basePoint (RRayData_of (RVector2 0 0) (RVector2 1 0)))
        (operator_minus (basePoint (RRayData_of (RVector2 0 0) (RVector2 1 0)))
           (direction (RRayData_of (RVector2 0 0) (RVector2 1 0))))
        (RRayData_of (RVector2 0 0) (RVector2 1 0)))) = nullVector"
    if "0 < tol"
    by (simp add: general [OF that])
  ultimately show ?thesis
    using general by blast
qed

theorem base_move_collapses_direction_witness:
  "(0::real) < 1 / 10 ^ 9
   \<and> direction (RRayData_of (RVector2 0 0 :: real RVector) (RVector2 1 0)) \<noteq> nullVector
   \<and> moveReferencePoint (1 / 10 ^ 9 :: real) (RVector2 0 0) (RVector2 (- 1) 0)
        (RRayData_of (RVector2 0 0) (RVector2 1 0))
      = (True, RRayData_of (RVector2 (- 1) 0) nullVector)
   \<and> moveReferencePoint tol9 (RVector2 0 0) (RVector2 (Num (- 1)) 0)
        (RRayData_of (RVector2 0 0) (RVector2 (Num 1) 0))
      = (True, RRayData_of (RVector2 (Num (- 1)) 0) nullVector)"
proof -
  have dbl: "moveReferencePoint tol9 (RVector2 0 0) (RVector2 (Num (- 1)) 0)
        (RRayData_of (RVector2 0 0) (RVector2 (Num 1) 0))
      = (True, RRayData_of (RVector2 (Num (- 1)) 0) nullVector)"
    by code_simp
  let ?r = "RRayData_of (RVector2 0 0 :: real RVector) (RVector2 1 0)"
  have pos: "(0::real) < 1 / 10 ^ 9" by simp
  have ne: "direction ?r \<noteq> nullVector"
    by (simp add: RRayData_of_def RVector2_def nullVector_def)
  have bp: "basePoint ?r = RVector2 0 0"
    by (simp add: RRayData_of_def)
  have tg: "operator_minus (basePoint ?r) (direction ?r) = RVector2 (- 1) 0"
    by (simp add: RRayData_of_def operator_minus_def RVector2_def)
  have upd: "?r\<lparr>basePoint := RVector2 (- 1) 0, direction := nullVector\<rparr>
      = RRayData_of (RVector2 (- 1) 0) nullVector"
    by (simp add: RRayData_of_def)
  from pos base_move_collapses_direction [of "1 / 10 ^ 9" ?r]
  have "moveReferencePoint (1 / 10 ^ 9) (basePoint ?r)
        (operator_minus (basePoint ?r) (direction ?r)) ?r
      = (True, ?r\<lparr>basePoint := operator_minus (basePoint ?r) (direction ?r),
                 direction := nullVector\<rparr>)"
    by blast
  from this [unfolded tg]
  have "moveReferencePoint (1 / 10 ^ 9) (RVector2 0 0) (RVector2 (- 1) 0) ?r
      = (True, RRayData_of (RVector2 (- 1) 0) nullVector)"
    unfolding bp upd .
  with pos ne dbl show ?thesis by blast
qed

end
